theory Spec2Isabelle
  imports Complex_Main "HOL-Library.Word" "HOL-Library.Log_Nat" "HOL-Library.Multiset"
begin

unbundle bit_operations_syntax

section \<open>Numbers, points and packed colours\<close>

text \<open>
  A JavaScript number that carries a coordinate or a colour channel is modelled as a
  \<^typ>\<open>real\<close>. A value that is \<open>undefined\<close>, \<open>NaN\<close> or infinite is \<open>None\<close> of
  \<^typ>\<open>real option\<close>. The rounding of binary64 arithmetic is a parameter of the
  functions that composite, interpolate, intersect and flatten (section on rounded
  arithmetic); the transform, which is modelled from the spec, is on exact reals.

  Exceptions are values of \<open>error\<close>; a function that can throw returns a sum with
  the exception on the left.
\<close>

datatype error = TypeError | Error string

datatype Point = Point (px: real) (py: real)

type_synonym uint32 = "32 word"
type_synonym byte = "8 word"

text \<open>
  Modelled from the spec: the module \<open>uint32\<close> (\<open>getBytesBigEndian\<close>,
  \<open>fromBytesBigEndian\<close>) is not among the sources. The spec fixes the layout: channel
  order R,G,B,A, big-endian, \<open>0xRRGGBBAA\<close>, and the two functions are inverse on bytes.
  The arguments of \<open>fromBytesBigEndian\<close> are JavaScript numbers combined by 32-bit
  shifts and ors, which first convert each number with \<open>ToInt32\<close>: the fraction is
  dropped (towards zero) and \<open>undefined\<close>, \<open>NaN\<close> and the infinities become 0.
\<close>

definition getBytesBigEndian :: "uint32 \<Rightarrow> byte list" where
  "getBytesBigEndian w =
     [ucast (drop_bit 24 w), ucast (drop_bit 16 w), ucast (drop_bit 8 w), ucast w]"

definition ToInt32 :: "real option \<Rightarrow> uint32" where
  "ToInt32 v = (case v of
       None \<Rightarrow> 0
     | Some r \<Rightarrow> word_of_int (if 0 \<le> r then \<lfloor>r\<rfloor> else \<lceil>r\<rceil>))"

definition fromBytesBigEndian ::
  "real option \<Rightarrow> real option \<Rightarrow> real option \<Rightarrow> real option \<Rightarrow> uint32" where
  "fromBytesBigEndian highByte secondHighByte thirdHighByte lowByte =
     push_bit 24 (ToInt32 highByte) OR push_bit 16 (ToInt32 secondHighByte)
       OR push_bit 8 (ToInt32 thirdHighByte) OR ToInt32 lowByte"

section \<open>Bitmap\<close>

text \<open>
  \<open>data\<close> is a Node \<open>Buffer\<close>: a byte array of fixed length. A store at an index
  past its end is ignored, which is what \<open>xs[i := v]\<close> does; a load past its end is
  \<open>undefined\<close>.
\<close>

record Bitmap =
  width :: int
  height :: int
  data :: "byte list"

definition calculateIndex :: "Bitmap \<Rightarrow> real \<Rightarrow> real \<Rightarrow> int" where
  "calculateIndex bm x0 y0 =
     (let x = \<lfloor>x0\<rfloor>; y = \<lfloor>y0\<rfloor>
      in if x < 0 \<or> y < 0 \<or> x \<ge> width bm \<or> y \<ge> height bm then 0
         else (width bm * y + x) * 4)"

definition setPixelRGBA :: "Bitmap \<Rightarrow> real \<Rightarrow> real \<Rightarrow> uint32 \<Rightarrow> Bitmap" where
  "setPixelRGBA bm x y rgba =
     (let i = nat (calculateIndex bm x y);
          bytes = getBytesBigEndian rgba
      in bm\<lparr>data := (data bm)[i + 0 := bytes ! 0, i + 1 := bytes ! 1,
                               i + 2 := bytes ! 2, i + 3 := bytes ! 3]\<rparr>)"

definition load :: "byte list \<Rightarrow> nat \<Rightarrow> real option" where
  "load buf i = (if i < length buf then Some (real (unat (buf ! i))) else None)"

definition getPixelRGBA :: "Bitmap \<Rightarrow> real \<Rightarrow> real \<Rightarrow> uint32" where
  "getPixelRGBA bm x y =
     (let i = nat (calculateIndex bm x y)
      in fromBytesBigEndian (load (data bm) (i + 0)) (load (data bm) (i + 1))
           (load (data bm) (i + 2)) (load (data bm) (i + 3)))"

section \<open>The drawing context\<close>

subsection \<open>Transform\<close>

text \<open>
  Modelled from the spec: the module \<open>transform\<close> (class \<open>Transform\<close>) is not among the
  sources. The spec gives it a current 2D matrix and a stack of saved matrices:
  \<open>save\<close> pushes a copy of the current matrix, \<open>restore\<close> pops if the stack is not
  empty and does nothing otherwise, \<open>translate\<close>, \<open>rotate\<close> and \<open>scale\<close> compose onto
  the current matrix, and \<open>transformPoint\<close> is pure. The head of \<open>stack\<close> is the matrix
  saved last.
\<close>

datatype Matrix = Matrix real real real real real real

record Transform =
  matrix :: Matrix
  stack :: "Matrix list"

definition Transform_new :: Transform where
  "Transform_new = \<lparr>matrix = Matrix 1 0 0 1 0 0, stack = []\<rparr>"

definition Transform_save :: "Transform \<Rightarrow> Transform" where
  "Transform_save t = t\<lparr>stack := matrix t # stack t\<rparr>"

definition Transform_restore :: "Transform \<Rightarrow> Transform" where
  "Transform_restore t = (case stack t of
       [] \<Rightarrow> t
     | m # ms \<Rightarrow> t\<lparr>matrix := m, stack := ms\<rparr>)"

definition Transform_translate :: "Transform \<Rightarrow> real \<Rightarrow> real \<Rightarrow> Transform" where
  "Transform_translate t x y = (case matrix t of Matrix a b c d e f \<Rightarrow>
     t\<lparr>matrix := Matrix a b c d (e + a * x + c * y) (f + b * x + d * y)\<rparr>)"

definition Transform_rotate :: "Transform \<Rightarrow> real \<Rightarrow> Transform" where
  "Transform_rotate t rad = (case matrix t of Matrix a b c d e f \<Rightarrow>
     t\<lparr>matrix := Matrix (a * cos rad + c * sin rad) (b * cos rad + d * sin rad)
                          (a * - sin rad + c * cos rad) (b * - sin rad + d * cos rad) e f\<rparr>)"

definition Transform_scale :: "Transform \<Rightarrow> real \<Rightarrow> real \<Rightarrow> Transform" where
  "Transform_scale t sx sy = (case matrix t of Matrix a b c d e f \<Rightarrow>
     t\<lparr>matrix := Matrix (a * sx) (b * sx) (c * sy) (d * sy) e f\<rparr>)"

definition transformPoint :: "Transform \<Rightarrow> Point \<Rightarrow> Point" where
  "transformPoint t pt = (case matrix t of Matrix a b c d e f \<Rightarrow>
     Point (px pt * a + py pt * c + e) (px pt * b + py pt * d + f))"

subsection \<open>Styles, path commands and lines\<close>

datatype ColorStop = ColorStop (stop_t: real) (stop_color: uint32)

datatype CanvasGradient =
    LinearGradient "ColorStop list" Point Point
  | RadialGradient "ColorStop list" Point

fun stops :: "CanvasGradient \<Rightarrow> ColorStop list" where
  "stops (LinearGradient ss _ _) = ss"
| "stops (RadialGradient ss _) = ss"

text \<open>\<open>_fillColor\<close> holds a packed colour or a gradient object.\<close>

datatype FillColor = Color uint32 | Gradient CanvasGradient

text \<open>
  A path command is a tag and its points. The point of a \<open>LINE\<close> command is optional:
  \<open>closePath\<close> stores \<open>this.pathstart\<close>, which is \<open>undefined\<close> until a first
  \<open>_moveTo\<close>. The end points of a \<open>Line\<close> are optional for the same reason, and because
  \<open>pathToLines\<close> starts a line at \<open>curr\<close>, which is \<open>null\<close> until a \<open>MOVE\<close>.
\<close>

datatype PathCommand =
    MOVE Point
  | LINE "Point option"
  | QUADRATIC_CURVE Point Point
  | BEZIER_CURVE Point Point Point

datatype Line = Line (line_start: "Point option") (line_end: "Point option")

datatype IFont = IFont (family: string) (font_size: real)

subsection \<open>Context\<close>

text \<open>
  The fields of class \<open>Context\<close>, without the leading underscore of the private ones.
  \<open>path\<close> has no initialiser: it is \<open>undefined\<close> (\<open>None\<close>) until \<open>beginPath\<close>;
  \<open>_clip\<close> and \<open>pathstart\<close> are optional fields.
\<close>

record Context =
  bitmap :: Bitmap
  fillColor :: FillColor
  strokeColor :: uint32
  lineWidth :: real
  globalAlpha :: real
  transform :: Transform
  font :: IFont
  textAlign :: string
  textBaseline :: string
  imageSmoothingEnabled :: bool
  fillStyle_text :: string
  strokeStyle_text :: string
  path :: "PathCommand list option"
  clip :: "Line list option"
  pathstart :: "Point option"

text \<open>
  Modelled from the spec: the table \<open>NAMED_COLORS\<close> is not among the sources; black is
  opaque black in the layout \<open>0xRRGGBBAA\<close>.
\<close>

definition NAMED_COLORS_black :: uint32 where
  "NAMED_COLORS_black = 0x000000FF"

definition Context_new :: "Bitmap \<Rightarrow> Context" where
  "Context_new bm =
     \<lparr>bitmap = bm, fillColor = Color NAMED_COLORS_black, strokeColor = NAMED_COLORS_black,
      lineWidth = 1, globalAlpha = 1, transform = Transform_new,
      font = IFont ''invalid'' 12, textAlign = ''start'', textBaseline = ''alphabetic'',
      imageSmoothingEnabled = True, fillStyle_text = [], strokeStyle_text = [],
      path = None, clip = None, pathstart = None\<rparr>"

text \<open>
  A method that throws returns \<open>Inl (e, c)\<close>: the exception and the context as the
  statements before the throw left it.
\<close>

type_synonym outcome = "(error \<times> Context) + Context"

subsubsection \<open>Fill style\<close>

text \<open>
  \<open>colorStringToUint32\<close> (module \<open>util\<close>) is not among the sources; the accessors take it
  as the parameter \<open>parse\<close>. It throws on a string it cannot read.
\<close>

datatype StyleValue = StyleString string | StyleGradient CanvasGradient

definition get_fillStyle :: "Context \<Rightarrow> string" where
  "get_fillStyle ctx = fillStyle_text ctx"

definition set_fillStyle :: "(string \<Rightarrow> error + uint32) \<Rightarrow> Context \<Rightarrow> StyleValue \<Rightarrow> outcome" where
  "set_fillStyle parse ctx val = (case val of
       StyleGradient g \<Rightarrow> Inr (ctx\<lparr>fillColor := Gradient g\<rparr>)
     | StyleString s \<Rightarrow> (case parse s of
           Inl e \<Rightarrow> Inl (e, ctx)
         | Inr c \<Rightarrow> Inr (ctx\<lparr>fillColor := Color c, fillStyle_text := s\<rparr>)))"

subsubsection \<open>Transform calls\<close>

definition save :: "Context \<Rightarrow> Context" where
  "save ctx = ctx\<lparr>transform := Transform_save (transform ctx)\<rparr>"

definition translate :: "Context \<Rightarrow> real \<Rightarrow> real \<Rightarrow> Context" where
  "translate ctx x y = ctx\<lparr>transform := Transform_translate (transform ctx) x y\<rparr>"

definition rotate_ctx :: "Context \<Rightarrow> real \<Rightarrow> Context" where
  "rotate_ctx ctx angle = ctx\<lparr>transform := Transform_rotate (transform ctx) angle\<rparr>"

definition scale :: "Context \<Rightarrow> real \<Rightarrow> real \<Rightarrow> Context" where
  "scale ctx sx sy = ctx\<lparr>transform := Transform_scale (transform ctx) sx sy\<rparr>"

definition restore :: "Context \<Rightarrow> Context" where
  "restore ctx = ctx\<lparr>transform := Transform_restore (transform ctx)\<rparr>"

subsubsection \<open>Path construction\<close>

definition beginPath :: "Context \<Rightarrow> Context" where
  "beginPath ctx = ctx\<lparr>path := Some []\<rparr>"

text \<open>\<open>this.path.push(cmd)\<close>: a \<open>TypeError\<close> while \<open>path\<close> is \<open>undefined\<close>.\<close>

definition path_push :: "Context \<Rightarrow> PathCommand \<Rightarrow> outcome" where
  "path_push ctx cmd = (case path ctx of
       None \<Rightarrow> Inl (TypeError, ctx)
     | Some cmds \<Rightarrow> Inr (ctx\<lparr>path := Some (cmds @ [cmd])\<rparr>))"

text \<open>
  \<open>moveTo_pt\<close>, \<open>lineTo_pt\<close> and \<open>bezierCurveTo_pt\<close> are the methods \<open>_moveTo\<close>,
  \<open>_lineTo\<close> and \<open>_bezierCurveTo\<close>, which take points.
\<close>

definition moveTo_pt :: "Context \<Rightarrow> Point \<Rightarrow> outcome" where
  "moveTo_pt ctx pt0 =
     (let pt = transformPoint (transform ctx) pt0
      in path_push (ctx\<lparr>pathstart := Some pt\<rparr>) (MOVE pt))"

definition moveTo :: "Context \<Rightarrow> real \<Rightarrow> real \<Rightarrow> outcome" where
  "moveTo ctx x y = moveTo_pt ctx (Point x y)"

definition lineTo_pt :: "Context \<Rightarrow> Point \<Rightarrow> outcome" where
  "lineTo_pt ctx pt = path_push ctx (LINE (Some (transformPoint (transform ctx) pt)))"

definition lineTo :: "Context \<Rightarrow> real \<Rightarrow> real \<Rightarrow> outcome" where
  "lineTo ctx x y = lineTo_pt ctx (Point x y)"

definition quadraticCurveTo :: "Context \<Rightarrow> real \<Rightarrow> real \<Rightarrow> real \<Rightarrow> real \<Rightarrow> outcome" where
  "quadraticCurveTo ctx cp1x cp1y x y =
     (let cp1 = transformPoint (transform ctx) (Point cp1x cp1y);
          pt = transformPoint (transform ctx) (Point x y)
      in path_push ctx (QUADRATIC_CURVE cp1 pt))"

definition bezierCurveTo_pt :: "Context \<Rightarrow> Point \<Rightarrow> Point \<Rightarrow> Point \<Rightarrow> outcome" where
  "bezierCurveTo_pt ctx cp1_0 cp2_0 pt0 =
     (let cp1 = transformPoint (transform ctx) cp1_0;
          cp2 = transformPoint (transform ctx) cp2_0;
          pt = transformPoint (transform ctx) pt0
      in path_push ctx (BEZIER_CURVE cp1 cp2 pt))"

definition bezierCurveTo ::
  "Context \<Rightarrow> real \<Rightarrow> real \<Rightarrow> real \<Rightarrow> real \<Rightarrow> real \<Rightarrow> real \<Rightarrow> outcome" where
  "bezierCurveTo ctx cp1x cp1y cp2x cp2y x y =
     bezierCurveTo_pt ctx (Point cp1x cp1y) (Point cp2x cp2y) (Point x y)"

definition closePath :: "Context \<Rightarrow> outcome" where
  "closePath ctx = path_push ctx (LINE (pathstart ctx))"

text \<open>Sequences of calls, to state what a run of calls leaves alone.\<close>

datatype StackCall = Save | Restore

fun stack_call :: "Context \<Rightarrow> StackCall \<Rightarrow> Context" where
  "stack_call ctx Save = save ctx"
| "stack_call ctx Restore = restore ctx"

definition stack_calls :: "Context \<Rightarrow> StackCall list \<Rightarrow> Context" where
  "stack_calls ctx cs = foldl stack_call ctx cs"

datatype TransformCall =
    CallTranslate real real
  | CallRotate real
  | CallScale real real
  | CallSave
  | CallRestore

fun transform_call :: "Context \<Rightarrow> TransformCall \<Rightarrow> Context" where
  "transform_call ctx (CallTranslate x y) = translate ctx x y"
| "transform_call ctx (CallRotate a) = rotate_ctx ctx a"
| "transform_call ctx (CallScale sx sy) = scale ctx sx sy"
| "transform_call ctx CallSave = save ctx"
| "transform_call ctx CallRestore = restore ctx"

definition transform_calls :: "Context \<Rightarrow> TransformCall list \<Rightarrow> Context" where
  "transform_calls ctx cs = foldl transform_call ctx cs"

section \<open>Rounded arithmetic\<close>

text \<open>
  The arithmetic of the program is decided by rounding: the byte that a colour channel
  is truncated to, the side of a pixel on which a crossing falls, how often the
  quadratic loop runs, whether the cubic recursion reaches a flat curve. The
  functions of the sources that compute on numbers therefore take the rounding of a
  result as the parameter \<open>rnd\<close>. \<open>binary64\<close> rounds as IEEE 754 rounds a binary64 result, which is
  what a JavaScript number operation does: to the nearest number with a significand of
  53 bits, ties to the even significand. \<open>binade x\<close> is the exponent \<open>e\<close> with
  \<open>2^e \<le> |x| < 2^(e+1)\<close>. Overflow and subnormal numbers are not modelled.
  \<open>exact\<close> does not round.
\<close>

definition pow2 :: "int \<Rightarrow> real" where
  "pow2 e = (if 0 \<le> e then 2 ^ nat e else 1 / 2 ^ nat (- e))"

definition binade :: "real \<Rightarrow> int" where
  "binade x = (if 1 \<le> \<bar>x\<bar> then bitlen \<lfloor>\<bar>x\<bar>\<rfloor> - 1 else - bitlen (\<lceil>1 / \<bar>x\<bar>\<rceil> - 1))"

definition round_half_even :: "real \<Rightarrow> int" where
  "round_half_even x =
     (let n = \<lfloor>x\<rfloor>; r = x - of_int n
      in if r < 1 / 2 then n else if 1 / 2 < r then n + 1 else if even n then n else n + 1)"

definition binary64 :: "real \<Rightarrow> real" where
  "binary64 x = (if x = 0 then 0
     else (let ulp = pow2 (binade x - 52) in of_int (round_half_even (x / ulp)) * ulp))"

definition exact :: "real \<Rightarrow> real" where
  "exact x = x"

text \<open>
  The operators \<open>+\<close>, \<open>-\<close>, \<open>*\<close>, \<open>/\<close>, \<open>Math.pow(v, 2)\<close> and \<open>Math.sqrt\<close> on
  numbers. A quotient with divisor zero is not a finite number: \<open>js_div\<close> is used
  where the divisor is a non-zero constant or, in the clip test, the rounded difference
  of two distinct numbers, which is not zero; \<open>composite\<close> tests its divisor.
\<close>

definition js_add :: "(real \<Rightarrow> real) \<Rightarrow> real \<Rightarrow> real \<Rightarrow> real" where
  "js_add rnd a b = rnd (a + b)"

definition js_sub :: "(real \<Rightarrow> real) \<Rightarrow> real \<Rightarrow> real \<Rightarrow> real" where
  "js_sub rnd a b = rnd (a - b)"

definition js_mul :: "(real \<Rightarrow> real) \<Rightarrow> real \<Rightarrow> real \<Rightarrow> real" where
  "js_mul rnd a b = rnd (a * b)"

definition js_pow2 :: "(real \<Rightarrow> real) \<Rightarrow> real \<Rightarrow> real" where
  "js_pow2 rnd v = rnd (v * v)"

definition js_div :: "(real \<Rightarrow> real) \<Rightarrow> real \<Rightarrow> real \<Rightarrow> real" where
  "js_div rnd a b = rnd (a / b)"

definition js_sqrt :: "(real \<Rightarrow> real) \<Rightarrow> real \<Rightarrow> real" where
  "js_sqrt rnd v = rnd (sqrt v)"

section \<open>Compositing\<close>

text \<open>
  \<open>compit\<close> is the local function of \<open>composite\<close>:
  \<open>(ca * aa + cb * ab * (1 - aa)) / (aa + ab * (1 - aa))\<close>. With a zero denominator
  the quotient is not a finite number in JavaScript (\<open>0/0\<close> is \<open>NaN\<close>, anything else
  over 0 is infinite): the result is then \<open>None\<close>, and stays so when multiplied by 255.
\<close>

definition compit :: "(real \<Rightarrow> real) \<Rightarrow> real \<Rightarrow> real \<Rightarrow> real \<Rightarrow> real \<Rightarrow> real option" where
  "compit rnd ca cb aa ab =
     (let num = js_add rnd (js_mul rnd ca aa) (js_mul rnd (js_mul rnd cb ab) (js_sub rnd 1 aa));
          den = js_add rnd aa (js_mul rnd ab (js_sub rnd 1 aa))
      in if den = 0 then None else Some (js_div rnd num den))"

definition composite ::
  "(real \<Rightarrow> real) \<Rightarrow> Context \<Rightarrow> real \<Rightarrow> real \<Rightarrow> uint32 \<Rightarrow> uint32 \<Rightarrow> uint32" where
  "composite rnd ctx i j old_pixel new_pixel =
     (let old_rgba = getBytesBigEndian old_pixel;
          new_rgba = getBytesBigEndian new_pixel;
          A0 = map (\<lambda>b. js_div rnd (real (unat b)) 255) new_rgba;
          B = map (\<lambda>b. js_div rnd (real (unat b)) 255) old_rgba;
          A = A0[3 := js_mul rnd (A0 ! 3) (globalAlpha ctx)];
          C = map (\<lambda>i. compit rnd (A ! i) (B ! i) (A ! 3) (B ! 3)) [0..<length A];
          Cf = map (map_option (\<lambda>c. js_mul rnd c 255)) C
      in fromBytesBigEndian (Cf ! 0) (Cf ! 1) (Cf ! 2) (Cf ! 3))"

section \<open>Gradients\<close>



text \<open>
  Modelled from the spec: the class \<open>Point\<close> is not among the sources; \<open>distance\<close> is the
  distance of two points in the plane, the square root of the sum of the squared
  coordinate differences.
\<close>

definition distance :: "(real \<Rightarrow> real) \<Rightarrow> Point \<Rightarrow> Point \<Rightarrow> real" where
  "distance rnd p q =
     js_sqrt rnd (js_add rnd (js_pow2 rnd (js_sub rnd (px p) (px q)))
                             (js_pow2 rnd (js_sub rnd (py p) (py q))))"



text \<open>
  The radial colour in the words of the spec, in the arithmetic of the code: the
  distance from the centre over 10, clamped to the unit interval, is the weight; each
  of the red, green and blue bytes of the first two stops is taken as a fraction of
  255, the fraction of the first stop is moved towards that of the second by the
  weight, and the result is scaled back to 0..255; the packing keeps its whole part.
  The alpha byte is 255.
\<close>

definition radial_weight :: "(real \<Rightarrow> real) \<Rightarrow> Point \<Rightarrow> real \<Rightarrow> real \<Rightarrow> real" where
  "radial_weight rnd centre x y = max 0 (min 1 (js_div rnd (distance rnd (Point x y) centre) 10))"

definition mix_channel :: "(real \<Rightarrow> real) \<Rightarrow> byte \<Rightarrow> byte \<Rightarrow> real \<Rightarrow> real" where
  "mix_channel rnd c0 c1 w =
     js_mul rnd
       (js_add rnd (js_div rnd (real (unat c0)) 255)
          (js_mul rnd (js_sub rnd (js_div rnd (real (unat c1)) 255)
                                  (js_div rnd (real (unat c0)) 255)) w))
       255"

definition radial_colour_spec ::
  "(real \<Rightarrow> real) \<Rightarrow> ColorStop \<Rightarrow> ColorStop \<Rightarrow> Point \<Rightarrow> real \<Rightarrow> real \<Rightarrow> uint32" where
  "radial_colour_spec rnd s0 s1 centre x y =
     (let w = radial_weight rnd centre x y;
          c0 = getBytesBigEndian (stop_color s0);
          c1 = getBytesBigEndian (stop_color s1)
      in fromBytesBigEndian (Some (mix_channel rnd (c0 ! 0) (c1 ! 0) w))
           (Some (mix_channel rnd (c0 ! 1) (c1 ! 1) w))
           (Some (mix_channel rnd (c0 ! 2) (c1 ! 2) w))
           (Some 255))"

section \<open>The clip test\<close>











section \<open>Flattening a path\<close>

subsection \<open>Quadratic curves\<close>

text \<open>
  One coordinate of \<open>calcQuadraticAtT\<close>:
  \<open>(1 - t) * (1 - t) * a + 2 * (1 - t) * t * b + t * t * c\<close>, left to right.
\<close>

definition quadratic_coordinate :: "(real \<Rightarrow> real) \<Rightarrow> real \<Rightarrow> real \<Rightarrow> real \<Rightarrow> real \<Rightarrow> real" where
  "quadratic_coordinate rnd t a b c =
     js_add rnd
       (js_add rnd (js_mul rnd (js_mul rnd (js_sub rnd 1 t) (js_sub rnd 1 t)) a)
                   (js_mul rnd (js_mul rnd (js_mul rnd 2 (js_sub rnd 1 t)) t) b))
       (js_mul rnd (js_mul rnd t t) c)"

text \<open>
  \<open>calcQuadraticAtT\<close> reads \<open>p[0].x\<close> first: a \<open>TypeError\<close> when the current point,
  which is \<open>p[0]\<close>, is \<open>null\<close>.
\<close>

definition calcQuadraticAtT ::
  "(real \<Rightarrow> real) \<Rightarrow> Point option \<times> Point \<times> Point \<Rightarrow> real \<Rightarrow> error + Point" where
  "calcQuadraticAtT rnd p t = (case p of
       (None, _, _) \<Rightarrow> Inl TypeError
     | (Some p0, p1, p2) \<Rightarrow>
         Inr (Point (quadratic_coordinate rnd t (px p0) (px p1) (px p2))
                    (quadratic_coordinate rnd t (py p0) (py p1) (py p2))))"

text \<open>
  The state of \<open>pathToLines\<close> is the array \<open>lines\<close> and the variable \<open>curr\<close>. A loop
  returns \<open>None\<close> if it does not return, \<open>Some (Inl e)\<close> if it throws. The literal
  \<open>0.1\<close> is the rounded tenth.
\<close>

type_synonym flatten_state = "Line list \<times> Point option"

partial_function (option) quadratic_loop ::
  "(real \<Rightarrow> real) \<Rightarrow> Point option \<times> Point \<times> Point \<Rightarrow> real \<Rightarrow> flatten_state
     \<Rightarrow> (error + flatten_state) option" where
  "quadratic_loop rnd pts t st =
     (if t < 1
      then (case calcQuadraticAtT rnd pts t of
              Inl e \<Rightarrow> Some (Inl e)
            | Inr pt \<Rightarrow> quadratic_loop rnd pts (js_add rnd t (rnd (1 / 10)))
                         (fst st @ [Line (snd st) (Some pt)], Some pt))
      else Some (Inr st))"

subsection \<open>Cubic curves\<close>

type_synonym IPointCurve = "Point \<times> Point \<times> Point \<times> Point"

definition midpoint :: "(real \<Rightarrow> real) \<Rightarrow> Point \<Rightarrow> Point \<Rightarrow> real \<Rightarrow> Point" where
  "midpoint rnd p1 p2 t =
     Point (js_add rnd (js_mul rnd (js_sub rnd (px p2) (px p1)) t) (px p1))
           (js_add rnd (js_mul rnd (js_sub rnd (py p2) (py p1)) t) (py p1))"

definition splitCurveAtT ::
  "(real \<Rightarrow> real) \<Rightarrow> IPointCurve \<Rightarrow> real \<Rightarrow> IPointCurve \<times> IPointCurve" where
  "splitCurveAtT rnd p t = (case p of (p1, p2, p3, p4) \<Rightarrow>
     (let p12 = midpoint rnd p1 p2 t;
          p23 = midpoint rnd p2 p3 t;
          p34 = midpoint rnd p4 p3 t;
          p123 = midpoint rnd p12 p23 t;
          p234 = midpoint rnd p23 p34 t;
          p1234 = Point (js_add rnd (js_mul rnd (js_sub rnd (px p234) (px p123)) t) (px p123))
                        (js_add rnd (js_mul rnd (js_sub rnd (py p234) (py p123)) t) (py p123))
      in ((p1, p12, p123, p1234), (p1234, p234, p34, p4))))"

text \<open>One term of \<open>flatness\<close>: \<open>Math.pow(3 * c - 2 * a - b, 2)\<close>.\<close>

definition deviation :: "(real \<Rightarrow> real) \<Rightarrow> real \<Rightarrow> real \<Rightarrow> real \<Rightarrow> real" where
  "deviation rnd c a b = js_pow2 rnd (js_sub rnd (js_sub rnd (js_mul rnd 3 c) (js_mul rnd 2 a)) b)"

definition flatness :: "(real \<Rightarrow> real) \<Rightarrow> IPointCurve \<Rightarrow> real" where
  "flatness rnd curve = (case curve of (pointA, controlPointA, controlPointB, pointB) \<Rightarrow>
     (let ux = deviation rnd (px controlPointA) (px pointA) (px pointB);
          uy = deviation rnd (py controlPointA) (py pointA) (py pointB);
          vx = deviation rnd (px controlPointB) (px pointB) (px pointA);
          vy = deviation rnd (py controlPointB) (py pointB) (py pointA);
          ux = (if ux < vx then vx else ux);
          uy = (if uy < vy then vy else uy)
      in js_add rnd ux uy))"

partial_function (option) recurse ::
  "(real \<Rightarrow> real) \<Rightarrow> real \<Rightarrow> IPointCurve \<Rightarrow> Point list option" where
  "recurse rnd THRESHOLD curve =
     (if flatness rnd curve < THRESHOLD then Some [fst curve, snd (snd (snd curve))]
      else Option.bind (recurse rnd THRESHOLD (fst (splitCurveAtT rnd curve (1 / 2))))
             (\<lambda>left. Option.bind (recurse rnd THRESHOLD (snd (splitCurveAtT rnd curve (1 / 2))))
                (\<lambda>right. Some (left @ right))))"

definition bezierToLines :: "(real \<Rightarrow> real) \<Rightarrow> IPointCurve \<Rightarrow> real \<Rightarrow> Point list option" where
  "bezierToLines rnd curve THRESHOLD = recurse rnd THRESHOLD curve"

subsection \<open>pathToLines\<close>

text \<open>\<open>push_points\<close> is the \<open>forEach\<close> over the points that \<open>bezierToLines\<close> returns.\<close>

fun push_points :: "flatten_state \<Rightarrow> Point list \<Rightarrow> flatten_state" where
  "push_points st [] = st"
| "push_points st (pt # pts) = push_points (fst st @ [Line (snd st) (Some pt)], Some pt) pts"

text \<open>
  One command of the path. \<open>flatness\<close> reads \<open>pointA.x\<close> in its first statement: a
  cubic command without a current point is a \<open>TypeError\<close>.
\<close>

fun path_command ::
  "(real \<Rightarrow> real) \<Rightarrow> flatten_state \<Rightarrow> PathCommand \<Rightarrow> (error + flatten_state) option" where
  "path_command rnd st (MOVE p) = Some (Inr (fst st, Some p))"
| "path_command rnd st (LINE pt) = Some (Inr (fst st @ [Line (snd st) pt], pt))"
| "path_command rnd st (QUADRATIC_CURVE cp pt) = quadratic_loop rnd (snd st, cp, pt) 0 st"
| "path_command rnd st (BEZIER_CURVE cp1 cp2 pt) = (case snd st of
       None \<Rightarrow> Some (Inl TypeError)
     | Some cur \<Rightarrow> (case bezierToLines rnd (cur, cp1, cp2, pt) 10 of
           None \<Rightarrow> None
         | Some pts \<Rightarrow> Some (Inr (push_points st pts))))"

fun path_commands ::
  "(real \<Rightarrow> real) \<Rightarrow> flatten_state \<Rightarrow> PathCommand list \<Rightarrow> (error + flatten_state) option" where
  "path_commands rnd st [] = Some (Inr st)"
| "path_commands rnd st (cmd # cmds) = (case path_command rnd st cmd of
       None \<Rightarrow> None
     | Some (Inl e) \<Rightarrow> Some (Inl e)
     | Some (Inr st') \<Rightarrow> path_commands rnd st' cmds)"

definition pathToLines :: "(real \<Rightarrow> real) \<Rightarrow> PathCommand list \<Rightarrow> (error + Line list) option" where
  "pathToLines rnd p = (case path_commands rnd ([], None) p of
       None \<Rightarrow> None
     | Some (Inl e) \<Rightarrow> Some (Inl e)
     | Some (Inr st) \<Rightarrow> Some (Inr (fst st)))"

subsection \<open>What the quadratic loop visits\<close>

text \<open>
  \<open>counter_run rnd t ts\<close>: started at \<open>t\<close>, the counter takes exactly the values
  \<open>ts\<close> before the test \<open>t < 1\<close> fails. \<open>quadratic_counter\<close> is the run from 0 in
  binary64; its values are the numbers printed as 0, 0.1, 0.2, 0.30000000000000004,
  0.4, 0.5, 0.6, 0.7, 0.7999999999999999, 0.8999999999999999 and 0.9999999999999999.
\<close>

fun counter_run :: "(real \<Rightarrow> real) \<Rightarrow> real \<Rightarrow> real list \<Rightarrow> bool" where
  "counter_run rnd t [] = (\<not> t < 1)"
| "counter_run rnd t (u # us) =
     (t = u \<and> t < 1 \<and> counter_run rnd (js_add rnd t (rnd (1 / 10))) us)"

definition quadratic_counter :: "real list" where
  "quadratic_counter =
     [0,
      3602879701896397 / 36028797018963968,
      3602879701896397 / 18014398509481984,
      1351079888211149 / 4503599627370496,
      3602879701896397 / 9007199254740992,
      1 / 2,
      5404319552844595 / 9007199254740992,
      3152519739159347 / 4503599627370496,
      7205759403792793 / 9007199254740992,
      2026619832316723 / 2251799813685248,
      9007199254740991 / 9007199254740992]"

definition quadratic_point :: "(real \<Rightarrow> real) \<Rightarrow> Point \<Rightarrow> Point \<Rightarrow> Point \<Rightarrow> real \<Rightarrow> Point" where
  "quadratic_point rnd p0 p1 p2 t =
     Point (quadratic_coordinate rnd t (px p0) (px p1) (px p2))
           (quadratic_coordinate rnd t (py p0) (py p1) (py p2))"

subsection \<open>A cubic at the edge of the integers\<close>

text \<open>
  A cubic from \<open>(2^53 + 2, 0)\<close> with both control points and the end point at
  \<open>(2^53, 0)\<close>; above \<open>2^53\<close> the binary64 numbers are the even integers.
\<close>

definition edge_curve :: IPointCurve where
  "edge_curve = (Point 9007199254740994 0, Point 9007199254740992 0,
                 Point 9007199254740992 0, Point 9007199254740992 0)"

definition arch_curve :: IPointCurve where
  "arch_curve = (Point 0 0, Point 0 2, Point 2 2, Point 2 0)"

section \<open>Concrete inputs\<close>

text \<open>A one-pixel bitmap and a colour parser that reads one string, for the examples.\<close>

definition bitmap1 :: Bitmap where
  "bitmap1 = \<lparr>width = 1, height = 1, data = [0, 0, 0, 0]\<rparr>"

definition parse_red_only :: "string \<Rightarrow> error + uint32" where
  "parse_red_only s =
     (if s = ''#ff0000'' then Inr 0xFF0000FF else Inl (Error ''unknown style format''))"

section \<open>Bitmap: out-of-range coordinates\<close>

lemma calculateIndex_outside:
  "\<lfloor>x\<rfloor> < 0 \<or> \<lfloor>y\<rfloor> < 0 \<or> width bm \<le> \<lfloor>x\<rfloor> \<or> height bm \<le> \<lfloor>y\<rfloor>
     \<Longrightarrow> calculateIndex bm x y = 0"
  by (auto simp: calculateIndex_def Let_def)

lemma calculateIndex_origin: "calculateIndex bm 0 0 = 0"
  by (simp add: calculateIndex_def)

text \<open>
  An access outside the bitmap is therefore the same access at pixel (0,0): the index
  that \<open>calculateIndex\<close> returns for it is the index of the first pixel.
\<close>

lemma setPixelRGBA_outside:
  "\<lfloor>x\<rfloor> < 0 \<or> \<lfloor>y\<rfloor> < 0 \<or> width bm \<le> \<lfloor>x\<rfloor> \<or> height bm \<le> \<lfloor>y\<rfloor>
     \<Longrightarrow> setPixelRGBA bm x y c = setPixelRGBA bm 0 0 c"
  by (simp add: setPixelRGBA_def calculateIndex_outside calculateIndex_origin)

lemma getPixelRGBA_outside:
  "\<lfloor>x\<rfloor> < 0 \<or> \<lfloor>y\<rfloor> < 0 \<or> width bm \<le> \<lfloor>x\<rfloor> \<or> height bm \<le> \<lfloor>y\<rfloor>
     \<Longrightarrow> getPixelRGBA bm x y = getPixelRGBA bm 0 0"
  by (simp add: getPixelRGBA_def calculateIndex_outside calculateIndex_origin)

lemma getBytesBigEndian_red: "getBytesBigEndian 0xFF0000FF = [255, 0, 0, 255]"
  by code_simp

lemma fromBytesBigEndian_red:
  "fromBytesBigEndian (Some 255) (Some 0) (Some 0) (Some 255) = 0xFF0000FF"
  by (simp add: fromBytesBigEndian_def ToInt32_def)

lemma replicate_16_bytes:
  "replicate 16 (0::byte) = [0, 0, 0, 0, 0, 0, 0, 0, 0, 0, 0, 0, 0, 0, 0, 0]"
  by (simp add: numeral_eq_Suc)

lemma setPixelRGBA_left_of_origin:
  "setPixelRGBA \<lparr>width = 2, height = 2, data = replicate 16 0\<rparr> (-1) 0 0xFF0000FF
     = \<lparr>width = 2, height = 2, data = [255, 0, 0, 255, 0, 0, 0, 0, 0, 0, 0, 0, 0, 0, 0, 0]\<rparr>"
  by (simp add: setPixelRGBA_def calculateIndex_def getBytesBigEndian_red replicate_16_bytes)

text \<open>
  C1. The claim: a read outside the bitmap returns 0 and a write outside the bitmap
  leaves every pixel unchanged. On a 2 by 2 bitmap of transparent black, the write of
  opaque red at \<open>(-1, 0)\<close> changes the buffer: pixel (0,0) reads opaque red afterwards,
  and so does the read at \<open>(-1, 0)\<close>, which is not 0. No access raises an error: both
  functions are total.
\<close>

theorem out_of_bounds_access_hits_first_pixel:
  "data (setPixelRGBA \<lparr>width = 2, height = 2, data = replicate 16 0\<rparr> (-1) 0 0xFF0000FF)
     \<noteq> replicate 16 0
   \<and> getPixelRGBA (setPixelRGBA \<lparr>width = 2, height = 2, data = replicate 16 0\<rparr> (-1) 0 0xFF0000FF)
       0 0 = 0xFF0000FF
   \<and> getPixelRGBA (setPixelRGBA \<lparr>width = 2, height = 2, data = replicate 16 0\<rparr> (-1) 0 0xFF0000FF)
       (-1) 0 = 0xFF0000FF"
proof -
  let ?bm = "\<lparr>width = 2, height = 2,
                data = [255, 0, 0, 255, 0, 0, 0, 0, 0, 0, 0, 0, 0, 0, 0, 0 :: byte]\<rparr>"
  have changed: "data ?bm \<noteq> replicate 16 0"
    by (simp add: replicate_16_bytes)
  have origin: "getPixelRGBA ?bm 0 0 = 0xFF0000FF"
    by (simp add: getPixelRGBA_def calculateIndex_def load_def fromBytesBigEndian_red)
  have outside: "getPixelRGBA ?bm (-1) 0 = 0xFF0000FF"
    by (simp add: getPixelRGBA_def calculateIndex_def load_def fromBytesBigEndian_red)
  show ?thesis
    unfolding setPixelRGBA_left_of_origin using changed origin outside by blast
qed

section \<open>Path construction and the transform\<close>

lemma transform_call_path [simp]: "path (transform_call ctx c) = path ctx"
  by (cases c) (simp_all add: translate_def rotate_ctx_def scale_def save_def restore_def)

lemma transform_calls_path: "path (transform_calls ctx cs) = path ctx"
  unfolding transform_calls_def by (induction cs arbitrary: ctx) simp_all

text \<open>
  C3. On a context whose path exists, each of \<open>moveTo\<close>, \<open>lineTo\<close>,
  \<open>quadraticCurveTo\<close> and \<open>bezierCurveTo\<close> appends one command whose points are the
  arguments mapped through the transform of the context at the call, and whatever run
  of \<open>translate\<close>, \<open>rotate\<close>, \<open>scale\<close>, \<open>save\<close> and \<open>restore\<close> calls follows, the
  path is still the old commands followed by that command.
\<close>

theorem path_commands_hold_transformed_points:
  assumes "path ctx = Some cmds"
  shows "(\<exists>c. moveTo ctx x y = Inr c
            \<and> path (transform_calls c calls)
                = Some (cmds @ [MOVE (transformPoint (transform ctx) (Point x y))]))
       \<and> (\<exists>c. lineTo ctx x y = Inr c
            \<and> path (transform_calls c calls)
                = Some (cmds @ [LINE (Some (transformPoint (transform ctx) (Point x y)))]))
       \<and> (\<exists>c. quadraticCurveTo ctx cx cy x y = Inr c
            \<and> path (transform_calls c calls)
                = Some (cmds @ [QUADRATIC_CURVE (transformPoint (transform ctx) (Point cx cy))
                                                (transformPoint (transform ctx) (Point x y))]))
       \<and> (\<exists>c. bezierCurveTo ctx cx cy dx dy x y = Inr c
            \<and> path (transform_calls c calls)
                = Some (cmds @ [BEZIER_CURVE (transformPoint (transform ctx) (Point cx cy))
                                             (transformPoint (transform ctx) (Point dx dy))
                                             (transformPoint (transform ctx) (Point x y))]))"
  using assms
  by (simp add: moveTo_def moveTo_pt_def lineTo_def lineTo_pt_def quadraticCurveTo_def
      bezierCurveTo_def bezierCurveTo_pt_def path_push_def transform_calls_path Let_def)

lemma transformPoint_translated:
  "transformPoint (transform (translate (beginPath (Context_new bitmap1)) 5 5)) (Point a b)
     = Point (a + 5) (b + 5)"
  by (simp add: translate_def beginPath_def Context_new_def Transform_new_def
      Transform_translate_def transformPoint_def)

theorem path_commands_hold_transformed_points_witness:
  "path (translate (beginPath (Context_new bitmap1)) 5 5) = Some []
   \<and> (\<exists>c. moveTo (translate (beginPath (Context_new bitmap1)) 5 5) 1 2 = Inr c
         \<and> path (transform_calls c [CallScale 3 3, CallSave, CallTranslate 1 1, CallRestore])
             = Some [MOVE (Point 6 7)])
   \<and> (\<exists>c. bezierCurveTo (translate (beginPath (Context_new bitmap1)) 5 5) 1 2 3 4 5 6 = Inr c
         \<and> path (transform_calls c [CallRotate 1, CallRestore])
             = Some [BEZIER_CURVE (Point 6 7) (Point 8 9) (Point 10 11)])"
proof -
  have h: "path (translate (beginPath (Context_new bitmap1)) 5 5) = Some []"
    by (simp add: translate_def beginPath_def)
  show ?thesis
    using h
      path_commands_hold_transformed_points [OF h, of 1 2
        "[CallScale 3 3, CallSave, CallTranslate 1 1, CallRestore]" 0 0 0 0]
      path_commands_hold_transformed_points [OF h, of 5 6 "[CallRotate 1, CallRestore]" 1 2 3 4]
    by (simp add: transformPoint_translated)
qed

section \<open>closePath\<close>

lemma closePath_with_start:
  "path ctx = Some cmds \<Longrightarrow> pathstart ctx = Some p
     \<Longrightarrow> closePath ctx = Inr (ctx\<lparr>path := Some (cmds @ [LINE (Some p)])\<rparr>)"
  by (simp add: closePath_def path_push_def)

lemma closePath_without_start:
  "path ctx = Some cmds \<Longrightarrow> pathstart ctx = None
     \<Longrightarrow> closePath ctx = Inr (ctx\<lparr>path := Some (cmds @ [LINE None])\<rparr>)"
  by (simp add: closePath_def path_push_def)

text \<open>
  C7. The claim: without a start point \<open>closePath\<close> leaves the command list unchanged.
  On a new context, after \<open>beginPath\<close> and with no \<open>moveTo\<close> before it,
  \<open>closePath\<close> appends a \<open>LINE\<close> command whose point is \<open>undefined\<close>: the list grows
  from no command to one.
\<close>

theorem closePath_without_start_appends:
  "closePath (beginPath (Context_new bm))
     = Inr ((beginPath (Context_new bm))\<lparr>path := Some [LINE None]\<rparr>)
   \<and> path (beginPath (Context_new bm)) = Some []
   \<and> pathstart (beginPath (Context_new bm)) = None"
  by (simp add: closePath_def path_push_def beginPath_def Context_new_def)

section \<open>save and restore\<close>

lemma stack_call_frame:
  "stack_call ctx c = ctx\<lparr>transform := transform (stack_call ctx c)\<rparr>"
  by (cases c) (simp_all add: save_def restore_def)

lemma stack_calls_frame:
  "stack_calls ctx cs = ctx\<lparr>transform := transform (stack_calls ctx cs)\<rparr>"
  unfolding stack_calls_def
proof (induction cs arbitrary: ctx)
  case Nil
  show ?case by simp
next
  case (Cons c cs)
  have "foldl stack_call (stack_call ctx c) cs
          = (stack_call ctx c)\<lparr>transform := transform (foldl stack_call (stack_call ctx c) cs)\<rparr>"
    by (rule Cons.IH)
  also have "\<dots> = ctx\<lparr>transform := transform (foldl stack_call (stack_call ctx c) cs)\<rparr>"
    by (subst stack_call_frame) simp
  finally show ?case by simp
qed

lemma restore_empty_stack: "stack (transform ctx) = [] \<Longrightarrow> restore ctx = ctx"
  by (simp add: restore_def Transform_restore_def)

text \<open>
  C9. After any run of \<open>save\<close> and \<open>restore\<close> calls the fill style (colour and
  text), the stroke style (colour and text), the line width, the global alpha, the
  anti-aliasing flag, the font, the text alignment (horizontal and vertical), the
  current path, the start point, the clip boundary and the bitmap are what they were;
  and \<open>restore\<close> on an empty stack of saved transforms returns the context unchanged.
\<close>

theorem save_restore_touch_only_transform:
  "fillColor (stack_calls ctx cs) = fillColor ctx
   \<and> fillStyle_text (stack_calls ctx cs) = fillStyle_text ctx
   \<and> strokeColor (stack_calls ctx cs) = strokeColor ctx
   \<and> strokeStyle_text (stack_calls ctx cs) = strokeStyle_text ctx
   \<and> lineWidth (stack_calls ctx cs) = lineWidth ctx
   \<and> globalAlpha (stack_calls ctx cs) = globalAlpha ctx
   \<and> imageSmoothingEnabled (stack_calls ctx cs) = imageSmoothingEnabled ctx
   \<and> font (stack_calls ctx cs) = font ctx
   \<and> textAlign (stack_calls ctx cs) = textAlign ctx
   \<and> textBaseline (stack_calls ctx cs) = textBaseline ctx
   \<and> path (stack_calls ctx cs) = path ctx
   \<and> pathstart (stack_calls ctx cs) = pathstart ctx
   \<and> clip (stack_calls ctx cs) = clip ctx
   \<and> bitmap (stack_calls ctx cs) = bitmap ctx
   \<and> (stack (transform ctx) = [] \<longrightarrow> restore ctx = ctx)"
proof -
  obtain t where "stack_calls ctx cs = ctx\<lparr>transform := t\<rparr>"
    using stack_calls_frame by blast
  then show ?thesis
    by (simp add: restore_empty_stack)
qed

theorem save_restore_touch_only_transform_witness:
  "stack (transform (Context_new bitmap1)) = []
   \<and> restore (Context_new bitmap1) = Context_new bitmap1
   \<and> path (stack_calls (beginPath (Context_new bitmap1)) [Save, Restore, Restore]) = Some []
   \<and> globalAlpha (stack_calls (beginPath (Context_new bitmap1)) [Save, Restore, Restore]) = 1"
proof -
  have h: "stack (transform (Context_new bitmap1)) = []"
    by (simp add: Context_new_def Transform_new_def)
  show ?thesis
    using h save_restore_touch_only_transform [of "Context_new bitmap1" "[]"]
      save_restore_touch_only_transform
        [of "beginPath (Context_new bitmap1)" "[Save, Restore, Restore]"]
    by (simp add: beginPath_def Context_new_def)
qed

section \<open>Fill style text\<close>

text \<open>
  C10. Assigning a gradient to \<open>fillStyle\<close> sets \<open>_fillColor\<close> to the gradient and
  leaves \<open>_fillStyle_text\<close> as it was: when the assignment of a string \<open>s\<close> has
  succeeded, the assignment of a gradient after it succeeds too, and \<open>fillStyle\<close>
  still reads \<open>s\<close>.
\<close>

theorem fillStyle_text_survives_gradient:
  assumes "set_fillStyle parse ctx (StyleString s) = Inr c1"
  shows "\<exists>c2. set_fillStyle parse c1 (StyleGradient g) = Inr c2
           \<and> fillColor c2 = Gradient g
           \<and> fillStyle_text c2 = fillStyle_text c1
           \<and> get_fillStyle c2 = s"
  using assms
  by (auto simp: set_fillStyle_def get_fillStyle_def split: sum.splits)

theorem fillStyle_text_survives_gradient_witness:
  "set_fillStyle parse_red_only (Context_new bitmap1) (StyleString ''#ff0000'')
     = Inr ((Context_new bitmap1)\<lparr>fillColor := Color 0xFF0000FF, fillStyle_text := ''#ff0000''\<rparr>)
   \<and> (\<exists>c2. set_fillStyle parse_red_only
               ((Context_new bitmap1)\<lparr>fillColor := Color 0xFF0000FF, fillStyle_text := ''#ff0000''\<rparr>)
               (StyleGradient (RadialGradient [] (Point 0 0))) = Inr c2
           \<and> fillColor c2 = Gradient (RadialGradient [] (Point 0 0))
           \<and> get_fillStyle c2 = ''#ff0000'')"
proof -
  have h: "set_fillStyle parse_red_only (Context_new bitmap1) (StyleString ''#ff0000'')
     = Inr ((Context_new bitmap1)\<lparr>fillColor := Color 0xFF0000FF, fillStyle_text := ''#ff0000''\<rparr>)"
    by (simp add: set_fillStyle_def parse_red_only_def)
  show ?thesis
    using h fillStyle_text_survives_gradient [OF h, of "RadialGradient [] (Point 0 0)"]
    by blast
qed

section \<open>Values of binary64\<close>

lemmas binary64_eval =
  binary64_def binade_def pow2_def round_half_even_def bitlen_def compute_floorlog Let_def

lemma binary64_values:
  "binary64 (- 4) = - 4"
  "binary64 (- 2) = - 2"
  "binary64 (- 1) = - 1"
  "binary64 (- (1 / 2)) = - (1 / 2)"
  "binary64 0 = 0"
  "binary64 (1 / 4) = 1 / 4"
  "binary64 (1 / 2) = 1 / 2"
  "binary64 1 = 1"
  "binary64 (3 / 2) = 3 / 2"
  "binary64 2 = 2"
  "binary64 (9 / 4) = 9 / 4"
  "binary64 (5 / 2) = 5 / 2"
  "binary64 3 = 3"
  "binary64 (13 / 4) = 13 / 4"
  "binary64 4 = 4"
  "binary64 (9 / 2) = 9 / 2"
  "binary64 6 = 6"
  "binary64 16 = 16"
  "binary64 36 = 36"
  "binary64 40 = 40"
  "binary64 9007199254740988 = 9007199254740988"
  "binary64 9007199254740992 = 9007199254740992"
  "binary64 9007199254740993 = 9007199254740992"
  "binary64 18014398509481984 = 18014398509481984"
  "binary64 18014398509481988 = 18014398509481988"
  "binary64 27021597764222976 = 27021597764222976"
  "binary64 (- 77) = - 77"
  "binary64 (- (567453553048682531 / 9007199254740992)) = - (8866461766385665 / 140737488355328)"
  "binary64 (- 10) = - 10"
  "binary64 (- 5) = - 5"
  "binary64 (- (3602879701896397 / 4503599627370496)) = - (3602879701896397 / 4503599627370496)"
  "binary64 (1996269457337496149333067379225 / 5192296858534827628530496329220096) = 443260862978411 / 1152921504606846976"
  "binary64 (1 / 255) = 282578800148737 / 72057594037927936"
  "binary64 (1412894000743685 / 72057594037927936) = 1412894000743685 / 72057594037927936"
  "binary64 (1 / 51) = 1412894000743685 / 72057594037927936"
  "binary64 (2155971013924495841279712769563 / 40564819207303340847894502572032) = 3829773856133471 / 72057594037927936"
  "binary64 (3829773856133471 / 72057594037927936) = 3829773856133471 / 72057594037927936"
  "binary64 (6 / 85) = 2543209201338633 / 36028797018963968"
  "binary64 (3829773856133471 / 54255129628557504) = 2543209201338633 / 36028797018963968"
  "binary64 (282578800148737 / 2251799813685248) = 282578800148737 / 2251799813685248"
  "binary64 (9042521604759585 / 72057594037927936) = 282578800148737 / 2251799813685248"
  "binary64 (9325100404908321 / 72057594037927936) = 291409387653385 / 2251799813685248"
  "binary64 (11 / 85) = 4662550202454161 / 36028797018963968"
  "binary64 (3114180353446493992959585111591 / 20282409603651670423947251286016) = 5531895569970569 / 36028797018963968"
  "binary64 (5531895569970569 / 36028797018963968) = 5531895569970569 / 36028797018963968"
  "binary64 (900719925474099 / 4503599627370496) = 900719925474099 / 4503599627370496"
  "binary64 (5531895569970569 / 27127564814278752) = 3673524401933581 / 18014398509481984"
  "binary64 (52 / 255) = 3673524401933581 / 18014398509481984"
  "binary64 (2575187599965370244573757030753 / 10141204801825835211973625643008) = 2287226052968601 / 9007199254740992"
  "binary64 (2287226052968601 / 9007199254740992) = 2287226052968601 / 9007199254740992"
  "binary64 (86 / 255) = 3037722101598923 / 9007199254740992"
  "binary64 (26289954631823 / 77952772454824) = 3037722101598923 / 9007199254740992"
  "binary64 (2553182570755647 / 4503599627370496) = 2553182570755647 / 4503599627370496"
  "binary64 (718657004641498613759904256521 / 1267650600228229401496703205376) = 2553182570755647 / 4503599627370496"
  "binary64 (2649176251394409 / 4503599627370496) = 2649176251394409 / 4503599627370496"
  "binary64 (47723316714474514865090315742445 / 81129638414606681695789005144064) = 2649176251394409 / 4503599627370496"
  "binary64 (5404319552844595 / 9007199254740992) = 5404319552844595 / 9007199254740992"
  "binary64 (3 / 5) = 5404319552844595 / 9007199254740992"
  "binary64 (851060856918549 / 1130315200594948) = 6781891203569687 / 9007199254740992"
  "binary64 (847736400446211 / 1125899906842624) = 847736400446211 / 1125899906842624"
  "binary64 (64 / 85) = 847736400446211 / 1125899906842624"
  "binary64 (4 / 5) = 3602879701896397 / 4503599627370496"
  "binary64 (3602879701896397 / 4503599627370496) = 3602879701896397 / 4503599627370496"
  "binary64 (9 / 11) = 7369526662969903 / 9007199254740992"
  "binary64 (8830587504648031 / 9007199254740992) = 8830587504648031 / 9007199254740992"
  "binary64 (70644700037184251 / 72057594037927936) = 8830587504648031 / 9007199254740992"
  "binary64 (1130758461457926379 / 1152921504606846976) = 4417025240070025 / 4503599627370496"
  "binary64 (4417025240070025 / 4503599627370496) = 4417025240070025 / 4503599627370496"
  "binary64 (72057594037927933 / 72057594037927936) = 1"
  "binary64 5 = 5"
  "binary64 8 = 8"
  "binary64 9 = 9"
  "binary64 10 = 10"
  "binary64 (648518346341351415 / 36028797018963968) = 18"
  "binary64 25 = 25"
  "binary64 30 = 30"
  "binary64 (74309393851613175 / 2251799813685248) = 4644337115725823 / 140737488355328"
  "binary64 45 = 45"
  "binary64 50 = 50"
  "binary64 (229683580995895245 / 4503599627370496) = 3588805953060863 / 70368744177664"
  "binary64 (936748722493063155 / 18014398509481984) = 52"
  "binary64 55 = 55"
  "binary64 (8444249301319679 / 140737488355328) = 8444249301319679 / 140737488355328"
  "binary64 64 = 64"
  "binary64 (774619135907725365 / 9007199254740992) = 86"
  "binary64 (255 / 2) = 255 / 2"
  "binary64 (675539944105574295 / 4503599627370496) = 5277655813324799 / 35184372088832"
  "binary64 (1729382256910270185 / 9007199254740992) = 6755399441055743 / 35184372088832"
  "binary64 (918734323983581235 / 4503599627370496) = 204"
  "binary64 (1126341436217856375 / 4503599627370496) = 8799542470452003 / 35184372088832"
  "binary64 255 = 255"
  "binary64 900 = 900"
  "binary64 1600 = 1600"
  "binary64 2500 = 2500"
  by (simp_all add: binary64_eval)

lemmas js_eval =
  js_add_def js_sub_def js_mul_def js_div_def js_pow2_def js_sqrt_def binary64_values

lemmas exact_eval =
  js_add_def js_sub_def js_mul_def js_div_def js_pow2_def js_sqrt_def exact_def

section \<open>binary64 is zero at zero only\<close>

lemma pow2_pos: "0 < pow2 e"
  by (simp add: pow2_def)

lemma pow2_binade_le:
  assumes "x \<noteq> 0"
  shows "pow2 (binade x) \<le> \<bar>x\<bar>"
proof (cases "1 \<le> \<bar>x\<bar>")
  case True
  then have n: "0 < \<lfloor>\<bar>x\<bar>\<rfloor>"
    by linarith
  from bitlen_bounds [OF n] have "2 ^ nat (bitlen \<lfloor>\<bar>x\<bar>\<rfloor> - 1) \<le> \<lfloor>\<bar>x\<bar>\<rfloor>"
    by simp
  then have "(2::real) ^ nat (bitlen \<lfloor>\<bar>x\<bar>\<rfloor> - 1) \<le> of_int \<lfloor>\<bar>x\<bar>\<rfloor>"
    by (metis of_int_le_iff of_int_numeral of_int_power)
  also have "\<dots> \<le> \<bar>x\<bar>"
    by simp
  finally have le: "(2::real) ^ nat (bitlen \<lfloor>\<bar>x\<bar>\<rfloor> - 1) \<le> \<bar>x\<bar>" .
  have "0 < bitlen \<lfloor>\<bar>x\<bar>\<rfloor>"
    using n by (auto simp: bitlen_alt_def)
  with True le show ?thesis
    by (simp add: binade_def pow2_def)
next
  case False
  let ?m = "\<lceil>1 / \<bar>x\<bar>\<rceil> - 1"
  from False assms have "1 < 1 / \<bar>x\<bar>"
    by simp
  then have m: "0 < ?m"
    by linarith
  from bitlen_bounds [OF m] have "?m < 2 ^ nat (bitlen ?m)"
    by simp
  then have "\<lceil>1 / \<bar>x\<bar>\<rceil> \<le> 2 ^ nat (bitlen ?m)"
    by linarith
  then have "of_int \<lceil>1 / \<bar>x\<bar>\<rceil> \<le> (2::real) ^ nat (bitlen ?m)"
    by (metis of_int_le_iff of_int_numeral of_int_power)
  then have "1 / \<bar>x\<bar> \<le> (2::real) ^ nat (bitlen ?m)"
    using le_of_int_ceiling [of "1 / \<bar>x\<bar>"] by linarith
  then have le: "1 / 2 ^ nat (bitlen ?m) \<le> \<bar>x\<bar>"
    using assms by (simp add: field_simps)
  have "0 < bitlen ?m"
    using m by (auto simp: bitlen_alt_def)
  with False le show ?thesis
    by (simp add: binade_def pow2_def)
qed

lemma pow2_powr: "pow2 e = 2 powr (of_int e)"
proof (cases "0 \<le> e")
  case True
  then have "(2::real) powr (of_int e) = 2 powr (real (nat e))"
    by simp
  also have "\<dots> = 2 ^ nat e"
    by (rule powr_realpow) simp
  finally show ?thesis
    using True by (simp add: pow2_def)
next
  case False
  then have "(2::real) powr (of_int e) = 2 powr (- real (nat (- e)))"
    by simp
  also have "\<dots> = 1 / 2 powr (real (nat (- e)))"
    by (rule powr_minus_divide)
  also have "2 powr (real (nat (- e))) = (2::real) ^ nat (- e)"
    by (rule powr_realpow) simp
  finally show ?thesis
    using False by (simp add: pow2_def)
qed

lemma pow2_52: "pow2 (e - 52) * 2 ^ 52 = pow2 e"
proof -
  have "pow2 (e - 52) = 2 powr (of_int e - 52)"
    by (simp add: pow2_powr)
  also have "\<dots> = 2 powr (of_int e) / 2 powr 52"
    by (rule powr_diff)
  also have "(2::real) powr 52 = 2 ^ 52"
    by simp
  finally show ?thesis
    by (simp add: pow2_powr)
qed

lemma round_half_even_bounds:
  "\<lfloor>q\<rfloor> \<le> round_half_even q" "round_half_even q \<le> \<lfloor>q\<rfloor> + 1"
  by (simp_all add: round_half_even_def Let_def)

text \<open>Rounding to binary64 gives zero for zero only.\<close>

lemma binary64_zero_iff: "binary64 x = 0 \<longleftrightarrow> x = 0"
proof
  assume z: "binary64 x = 0"
  show "x = 0"
  proof (rule ccontr)
    assume nz: "x \<noteq> 0"
    define u where "u = pow2 (binade x - 52)"
    have u: "0 < u"
      by (simp add: u_def pow2_pos)
    have ux: "u * 2 ^ 52 \<le> \<bar>x\<bar>"
      using pow2_binade_le [OF nz] pow2_52 [of "binade x"] by (simp add: u_def)
    with u have big: "2 ^ 52 \<le> \<bar>x / u\<bar>"
      by (simp add: field_simps)
    have "round_half_even (x / u) \<noteq> 0"
    proof (cases "0 \<le> x / u")
      case True
      with big have "(2::real) ^ 52 \<le> x / u"
        by simp
      then have "(2::int) ^ 52 \<le> \<lfloor>x / u\<rfloor>"
        by (simp add: le_floor_iff)
      moreover have "(0::int) < 2 ^ 52"
        by simp
      ultimately show ?thesis
        using round_half_even_bounds(1) [of "x / u"] by linarith
    next
      case False
      with big have "x / u \<le> - (2 ^ 52)"
        by simp
      then have "\<lfloor>x / u\<rfloor> \<le> - (2 ^ 52)"
        by (simp add: floor_le_iff)
      moreover have "(1::int) < 2 ^ 52"
        by simp
      ultimately show ?thesis
        using round_half_even_bounds(2) [of "x / u"] by linarith
    qed
    with u nz have "binary64 x \<noteq> 0"
      by (simp add: binary64_def Let_def u_def)
    with z show False
      by simp
  qed
next
  assume "x = 0"
  then show "binary64 x = 0"
    by (simp add: binary64_def)
qed

section \<open>Packing and compositing\<close>

lemma ToInt32_byte: "ToInt32 (Some (unsigned (b::byte))) = ucast b"
proof -
  have r: "(unsigned b :: real) = of_int (uint b)"
    by simp
  have "\<lfloor>unsigned b :: real\<rfloor> = uint b"
    unfolding r by (rule floor_of_int)
  moreover have "0 \<le> (unsigned b :: real)"
    using of_nat_0_le_iff [of "unat b", where ?'a = real] by simp
  ultimately show ?thesis
    by (simp add: ToInt32_def)
qed

lemma pack_unpack:
  "push_bit 24 (ucast (ucast (drop_bit 24 w) :: byte)) OR push_bit 16 (ucast (ucast (drop_bit 16 w) :: byte))
     OR push_bit 8 (ucast (ucast (drop_bit 8 w) :: byte)) OR ucast (ucast w :: byte) = (w :: uint32)"
proof (rule bit_word_eqI)
  fix n
  assume "n < LENGTH(32)"
  then have "n < 8 \<or> (8 \<le> n \<and> n < 16) \<or> (16 \<le> n \<and> n < 24) \<or> (24 \<le> n \<and> n < 32)"
    by auto
  then show "bit (push_bit 24 (ucast (ucast (drop_bit 24 w) :: byte)) OR push_bit 16 (ucast (ucast (drop_bit 16 w) :: byte))
     OR push_bit 8 (ucast (ucast (drop_bit 8 w) :: byte)) OR ucast (ucast w :: byte) :: uint32) n = bit w n"
    by (auto simp: bit_simps)
qed

lemma fromBytes_getBytes:
  "fromBytesBigEndian (Some (unsigned (getBytesBigEndian w ! 0))) (Some (unsigned (getBytesBigEndian w ! 1)))
     (Some (unsigned (getBytesBigEndian w ! 2))) (Some (unsigned (getBytesBigEndian w ! 3))) = w"
  by (simp add: fromBytesBigEndian_def ToInt32_byte getBytesBigEndian_def pack_unpack)

lemma length_getBytesBigEndian: "length (getBytesBigEndian w) = 4"
  by (simp add: getBytesBigEndian_def)

lemma upt_4: "[0..<4] = [0, 1, 2, 3]"
  by (simp add: upt_conv_Cons)

text \<open>In exact arithmetic an opaque source replaces the destination.\<close>

lemma compit_exact_opaque: "compit exact ca cb 1 ab = Some ca"
  by (simp add: compit_def exact_eval)

lemma composite_exact_opaque_source:
  assumes "globalAlpha ctx = 1" and "getBytesBigEndian new_pixel ! 3 = 255"
  shows "composite exact ctx i j old_pixel new_pixel = new_pixel"
proof -
  have a3: "(unsigned (getBytesBigEndian new_pixel ! 3) :: real) = 255"
    using assms(2) by simp
  show ?thesis
    using fromBytes_getBytes [of new_pixel] a3 assms(1)
    by (simp add: composite_def Let_def length_getBytesBigEndian upt_4 compit_exact_opaque
        exact_eval)
qed

lemma getBytesBigEndian_examples:
  "getBytesBigEndian 0x12345600 = [0x12, 0x34, 0x56, 0]"
  "getBytesBigEndian 0x123456C0 = [0x12, 0x34, 0x56, 0xC0]"
  "getBytesBigEndian 0 = [0, 0, 0, 0]"
  "getBytesBigEndian 0xFF0000FF = [0xFF, 0, 0, 0xFF]"
  "getBytesBigEndian 0x0000FFFF = [0, 0, 0xFF, 0xFF]"
  "getBytesBigEndian 0x990000FF = [0x99, 0, 0, 0xFF]"
  "getBytesBigEndian 0x00000005 = [0, 0, 0, 5]"
  "getBytesBigEndian 0x010101FF = [1, 1, 1, 0xFF]"
  "getBytesBigEndian 0x212121FF = [0x21, 0x21, 0x21, 0xFF]"
  by code_simp+

text \<open>
  In binary64 a transparent source can change a destination of non-zero alpha: over
  \<open>0x123456C0\<close> the alpha channel comes out just below 192 and is truncated to 191.
\<close>

lemma composite_binary64_transparent_source:
  "globalAlpha ctx = 1 \<Longrightarrow> composite binary64 ctx i j 0x123456C0 0x00000000 = 0x123456BF"
  by (simp add: composite_def getBytesBigEndian_examples compit_def fromBytesBigEndian_def
      ToInt32_def upt_conv_Cons js_eval)

text \<open>A faint source over opaque \<open>0x990000FF\<close>, in binary64.\<close>

lemma composite_binary64_faint_source:
  "globalAlpha ctx = 1 \<Longrightarrow> composite binary64 ctx i j 0x990000FF 0x00000005 = 0x950000FA"
  by (simp add: composite_def getBytesBigEndian_examples compit_def fromBytesBigEndian_def
      ToInt32_def upt_conv_Cons js_eval)

text \<open>
  C2. The claim: a source of alpha 0 composited over any destination, also one of
  alpha 0, gives the destination. Over the destination \<open>0x12345600\<close> (alpha 0) the
  source \<open>0x00000000\<close> gives 0 for every context: the combined alpha is 0, every
  channel is \<open>0/0\<close>, and the packing turns \<open>NaN\<close> into 0.
\<close>

theorem composite_transparent_over_transparent:
  "composite binary64 ctx i j 0x12345600 0x00000000 = 0"
  by (simp add: composite_def getBytesBigEndian_examples compit_def fromBytesBigEndian_def
      ToInt32_def upt_conv_Cons js_eval)

section \<open>Radial gradient\<close>






text \<open>
  At a distance of 10 or more the weight is 1; the bytes of the second stop come out
  just below \<open>0x21\<close> in binary64 and are truncated.
\<close>

lemma sqrt_2500: "sqrt (2500::real) = 50"
  by (rule real_sqrt_unique) simp_all

lemma radial_colour_spec_far:
  "radial_colour_spec binary64 (ColorStop 0 0x010101FF) (ColorStop 1 0x212121FF) (Point 0 0) 30 40
     = 0x202020FF"
  by (simp add: radial_colour_spec_def radial_weight_def distance_def mix_channel_def sqrt_2500
      getBytesBigEndian_examples fromBytesBigEndian_def ToInt32_def js_eval)


section \<open>The clip test\<close>




text \<open>
  The divisor of a crossing is the rounded difference of the two y-coordinates, which
  differ where the crossing is computed: it is not zero.
\<close>

lemma crossing_divisor:
  assumes "py A < y \<and> py B \<ge> y \<or> py B < y \<and> py A \<ge> y"
  shows "js_sub binary64 (py B) (py A) \<noteq> 0" and "js_sub exact (py B) (py A) \<noteq> 0"
  using assms by (auto simp: js_sub_def binary64_zero_iff exact_def)





section \<open>Flattening: quadratic curves\<close>

lemma quadratic_counter_run: "counter_run binary64 0 quadratic_counter"
  by (simp add: quadratic_counter_def js_add_def binary64_eval)

text \<open>Without rounding the counter would take ten values.\<close>

lemma exact_counter_run:
  "counter_run exact 0 [0, 1 / 10, 2 / 10, 3 / 10, 4 / 10, 5 / 10, 6 / 10, 7 / 10, 8 / 10, 9 / 10]"
  by (simp add: js_add_def exact_def)

lemma calcQuadraticAtT_Some:
  "calcQuadraticAtT rnd (Some p0, p1, p2) t = Inr (quadratic_point rnd p0 p1 p2 t)"
  by (simp add: calcQuadraticAtT_def quadratic_point_def)

lemma quadratic_loop_run:
  "counter_run rnd t ts \<Longrightarrow>
     quadratic_loop rnd (Some p0, p1, p2) t st
       = Some (Inr (push_points st (map (quadratic_point rnd p0 p1 p2) ts)))"
proof (induction ts arbitrary: t st)
  case Nil
  then show ?case
    by (subst quadratic_loop.simps) simp
next
  case (Cons u us)
  from Cons.prems have t: "u = t" "t < 1"
    and run: "counter_run rnd (js_add rnd t (rnd (1 / 10))) us"
    by auto
  show ?case
    by (subst quadratic_loop.simps) (simp add: t calcQuadraticAtT_Some Cons.IH [OF run])
qed

lemma length_push_points: "length (fst (push_points st pts)) = length (fst st) + length pts"
  by (induction pts arbitrary: st) simp_all

text \<open>
  C5. The claim: a quadratic command is flattened into exactly 10 segments, at
  \<open>t = 0.0, 0.1, \<dots>, 0.9\<close>. After a \<open>MOVE\<close> to any point, a quadratic command
  with any control and end point is flattened into 11 segments: the counter reaches
  0.9999999999999999 in its tenth addition, which is still less than 1, so the loop
  runs an eleventh time and emits a segment for that value.
\<close>

theorem quadratic_command_emits_eleven_segments:
  "pathToLines binary64 [MOVE p0, QUADRATIC_CURVE p1 p2]
     = Some (Inr (fst (push_points ([], Some p0)
                         (map (quadratic_point binary64 p0 p1 p2) quadratic_counter))))
   \<and> length (fst (push_points ([], Some p0)
                     (map (quadratic_point binary64 p0 p1 p2) quadratic_counter))) = 11
   \<and> last quadratic_counter = 9007199254740991 / 9007199254740992
   \<and> last quadratic_counter < 1"
proof -
  have "pathToLines binary64 [MOVE p0, QUADRATIC_CURVE p1 p2]
     = Some (Inr (fst (push_points ([], Some p0)
                         (map (quadratic_point binary64 p0 p1 p2) quadratic_counter))))"
    by (simp add: pathToLines_def quadratic_loop_run [OF quadratic_counter_run])
  moreover have "length quadratic_counter = 11"
    and "last quadratic_counter = 9007199254740991 / 9007199254740992"
    by (simp_all add: quadratic_counter_def)
  ultimately show ?thesis
    by (simp add: length_push_points)
qed

section \<open>Flattening: cubic curves\<close>

subsection \<open>Exact arithmetic\<close>

text \<open>
  Splitting at one half divides the deviations of the control points from the chord
  by two at least, and so the flatness by four: with \<open>u\<close> and \<open>v\<close> the two deviations
  of a coordinate, the halves have the deviations \<open>(3u - v)/8\<close>, \<open>u/4\<close> and \<open>v/4\<close>,
  \<open>(3v - u)/8\<close>.
\<close>

lemma split_left:
  "fst (splitCurveAtT exact (Point a1 a2, Point b1 b2, Point c1 c2, Point d1 d2) (1 / 2))
     = (Point a1 a2, Point ((a1 + b1) / 2) ((a2 + b2) / 2),
        Point ((a1 + 2 * b1 + c1) / 4) ((a2 + 2 * b2 + c2) / 4),
        Point ((a1 + 3 * b1 + 3 * c1 + d1) / 8) ((a2 + 3 * b2 + 3 * c2 + d2) / 8))"
  by (simp add: splitCurveAtT_def midpoint_def exact_eval Let_def field_simps)

lemma split_right:
  "snd (splitCurveAtT exact (Point a1 a2, Point b1 b2, Point c1 c2, Point d1 d2) (1 / 2))
     = (Point ((a1 + 3 * b1 + 3 * c1 + d1) / 8) ((a2 + 3 * b2 + 3 * c2 + d2) / 8),
        Point ((b1 + 2 * c1 + d1) / 4) ((b2 + 2 * c2 + d2) / 4),
        Point ((c1 + d1) / 2) ((c2 + d2) / 2), Point d1 d2)"
  by (simp add: splitCurveAtT_def midpoint_def exact_eval Let_def field_simps)

lemma flatness_points:
  "flatness exact (Point a1 a2, Point b1 b2, Point c1 c2, Point d1 d2)
     = max ((3 * b1 - 2 * a1 - d1)\<^sup>2) ((3 * c1 - 2 * d1 - a1)\<^sup>2)
       + max ((3 * b2 - 2 * a2 - d2)\<^sup>2) ((3 * c2 - 2 * d2 - a2)\<^sup>2)"
  by (simp add: flatness_def deviation_def exact_eval Let_def max_def power2_eq_square)

lemma deviation_bound:
  fixes u v :: real
  shows "((3 * u - v) / 8)\<^sup>2 \<le> max (u\<^sup>2) (v\<^sup>2) / 4" and "(u / 4)\<^sup>2 \<le> max (u\<^sup>2) (v\<^sup>2) / 4"
proof -
  have "0 \<le> (u + v)\<^sup>2"
    by simp
  then have "(3 * u - v)\<^sup>2 \<le> 12 * u\<^sup>2 + 4 * v\<^sup>2"
    by (simp add: power2_eq_square algebra_simps)
  also have "\<dots> \<le> 16 * max (u\<^sup>2) (v\<^sup>2)"
    by (simp add: max_def)
  finally show "((3 * u - v) / 8)\<^sup>2 \<le> max (u\<^sup>2) (v\<^sup>2) / 4"
    by (simp add: power_divide)
  have "u\<^sup>2 \<le> max (u\<^sup>2) (v\<^sup>2)" and "0 \<le> u\<^sup>2"
    by simp_all
  then have "u\<^sup>2 \<le> 4 * max (u\<^sup>2) (v\<^sup>2)"
    by linarith
  then show "(u / 4)\<^sup>2 \<le> max (u\<^sup>2) (v\<^sup>2) / 4"
    by (simp add: power_divide)
qed

lemma deviation_left:
  fixes a b c d :: real
  shows "max ((3 * ((a + b) / 2) - 2 * a - (a + 3 * b + 3 * c + d) / 8)\<^sup>2)
             ((3 * ((a + 2 * b + c) / 4) - 2 * ((a + 3 * b + 3 * c + d) / 8) - a)\<^sup>2)
           \<le> max ((3 * b - 2 * a - d)\<^sup>2) ((3 * c - 2 * d - a)\<^sup>2) / 4"
proof -
  have e1: "3 * ((a + b) / 2) - 2 * a - (a + 3 * b + 3 * c + d) / 8
              = (3 * (3 * b - 2 * a - d) - (3 * c - 2 * d - a)) / 8"
    by (simp add: field_simps)
  have e2: "3 * ((a + 2 * b + c) / 4) - 2 * ((a + 3 * b + 3 * c + d) / 8) - a
              = (3 * b - 2 * a - d) / 4"
    by (simp add: field_simps)
  show ?thesis
    unfolding e1 e2 using deviation_bound [of "3 * b - 2 * a - d" "3 * c - 2 * d - a"]
    by (simp only: max.bounded_iff)
qed

lemma deviation_right:
  fixes a b c d :: real
  shows "max ((3 * ((b + 2 * c + d) / 4) - 2 * ((a + 3 * b + 3 * c + d) / 8) - d)\<^sup>2)
             ((3 * ((c + d) / 2) - 2 * d - (a + 3 * b + 3 * c + d) / 8)\<^sup>2)
           \<le> max ((3 * b - 2 * a - d)\<^sup>2) ((3 * c - 2 * d - a)\<^sup>2) / 4"
proof -
  have e1: "3 * ((b + 2 * c + d) / 4) - 2 * ((a + 3 * b + 3 * c + d) / 8) - d
              = (3 * c - 2 * d - a) / 4"
    by (simp add: field_simps)
  have e2: "3 * ((c + d) / 2) - 2 * d - (a + 3 * b + 3 * c + d) / 8
              = (3 * (3 * c - 2 * d - a) - (3 * b - 2 * a - d)) / 8"
    by (simp add: field_simps)
  show ?thesis
    unfolding e1 e2 using deviation_bound [of "3 * c - 2 * d - a" "3 * b - 2 * a - d"]
    by (simp only: max.bounded_iff max.commute)
qed

lemma flatness_split:
  "flatness exact (fst (splitCurveAtT exact curve (1 / 2))) \<le> flatness exact curve / 4"
  "flatness exact (snd (splitCurveAtT exact curve (1 / 2))) \<le> flatness exact curve / 4"
proof -
  obtain a1 a2 b1 b2 c1 c2 d1 d2
    where c: "curve = (Point a1 a2, Point b1 b2, Point c1 c2, Point d1 d2)"
    by (metis Point.exhaust prod.exhaust)
  have sum4: "p \<le> m / 4 \<Longrightarrow> q \<le> n / 4 \<Longrightarrow> p + q \<le> (m + n) / 4" for p q m n :: real
    by simp
  show "flatness exact (fst (splitCurveAtT exact curve (1 / 2))) \<le> flatness exact curve / 4"
    unfolding c split_left flatness_points
    by (rule sum4) (rule deviation_left)+
  show "flatness exact (snd (splitCurveAtT exact curve (1 / 2))) \<le> flatness exact curve / 4"
    unfolding c split_right flatness_points
    by (rule sum4) (rule deviation_right)+
qed

lemma flatness_measure:
  assumes "\<not> flatness exact curve < 10" and "f \<le> flatness exact curve / 4"
  shows "nat \<lceil>f\<rceil> < nat \<lceil>flatness exact curve\<rceil>"
proof -
  have "f \<le> flatness exact curve - 7"
    using assms by simp
  then have "\<lceil>f\<rceil> \<le> \<lceil>flatness exact curve - 7\<rceil>"
    by (rule ceiling_mono)
  also have "\<dots> = \<lceil>flatness exact curve\<rceil> - 7"
    by simp
  finally have "\<lceil>f\<rceil> < \<lceil>flatness exact curve\<rceil>"
    by simp
  moreover have "0 < \<lceil>flatness exact curve\<rceil>"
    using assms(1) by (simp add: not_less)
  ultimately show ?thesis
    by simp
qed

lemma recurse_exact_returns: "\<exists>pts. recurse exact 10 curve = Some pts"
proof (induction "nat \<lceil>flatness exact curve\<rceil>" arbitrary: curve rule: less_induct)
  case less
  show ?case
  proof (cases "flatness exact curve < 10")
    case True
    then show ?thesis
      by (subst recurse.simps) simp
  next
    case False
    obtain left where l: "recurse exact 10 (fst (splitCurveAtT exact curve (1 / 2))) = Some left"
      using less [OF flatness_measure [OF False flatness_split(1)]] by blast
    obtain right where r: "recurse exact 10 (snd (splitCurveAtT exact curve (1 / 2))) = Some right"
      using less [OF flatness_measure [OF False flatness_split(2)]] by blast
    show ?thesis
      by (subst recurse.simps) (simp add: False l r)
  qed
qed

subsection \<open>Any rounding\<close>

lemma recurse_result:
  assumes "recurse rnd TH curve = Some pts"
  shows "if flatness rnd curve < TH then pts = [fst curve, snd (snd (snd curve))]
         else \<exists>left right.
                recurse rnd TH (fst (splitCurveAtT rnd curve (1 / 2))) = Some left
              \<and> recurse rnd TH (snd (splitCurveAtT rnd curve (1 / 2))) = Some right
              \<and> pts = left @ right"
  using assms
  by (subst (asm) recurse.simps) (auto split: if_splits simp: bind_eq_Some_conv)

text \<open>A curve that is not flat and is its own first half is never flattened.\<close>

lemma recurse_own_half:
  assumes "recurse rnd TH curve = Some pts"
  shows "\<not> flatness rnd curve < TH \<longrightarrow> fst (splitCurveAtT rnd curve (1 / 2)) = curve \<longrightarrow> False"
proof (rule recurse.raw_induct
    [where P = "\<lambda>r T k z. \<not> flatness r k < T \<longrightarrow> fst (splitCurveAtT r k (1 / 2)) = k \<longrightarrow> False",
      OF _ assms])
  fix rec r T k z
  assume IH: "\<And>r' T' k' z'. rec r' T' k' = Some z' \<Longrightarrow>
                \<not> flatness r' k' < T' \<longrightarrow> fst (splitCurveAtT r' k' (1 / 2)) = k' \<longrightarrow> False"
    and eq: "(if flatness r k < T then Some [fst k, snd (snd (snd k))]
              else Option.bind (rec r T (fst (splitCurveAtT r k (1 / 2))))
                     (\<lambda>left. Option.bind (rec r T (snd (splitCurveAtT r k (1 / 2))))
                        (\<lambda>right. Some (left @ right)))) = Some z"
  show "\<not> flatness r k < T \<longrightarrow> fst (splitCurveAtT r k (1 / 2)) = k \<longrightarrow> False"
  proof (intro impI)
    assume nf: "\<not> flatness r k < T" and fx: "fst (splitCurveAtT r k (1 / 2)) = k"
    from eq nf fx obtain left where "rec r T k = Some left"
      by (auto simp: bind_eq_Some_conv)
    from IH [OF this] nf fx show False
      by blast
  qed
qed

subsection \<open>binary64\<close>

lemma edge_curve_flatness: "flatness binary64 edge_curve = 16"
  by (simp add: edge_curve_def flatness_def deviation_def js_eval)

lemma edge_curve_split: "fst (splitCurveAtT binary64 edge_curve (1 / 2)) = edge_curve"
  by (simp add: edge_curve_def splitCurveAtT_def midpoint_def js_eval Let_def)

lemma arch_binary64:
  "flatness binary64 arch_curve = 40"
  "splitCurveAtT binary64 arch_curve (1 / 2)
     = ((Point 0 0, Point 0 1, Point (1 / 2) (3 / 2), Point 1 (3 / 2)),
        (Point 1 (3 / 2), Point (3 / 2) (3 / 2), Point 2 1, Point 2 0))"
  "flatness binary64 (Point 0 0, Point 0 1, Point (1 / 2) (3 / 2), Point 1 (3 / 2)) = 13 / 4"
  "flatness binary64 (Point 1 (3 / 2), Point (3 / 2) (3 / 2), Point 2 1, Point 2 0) = 13 / 4"
  by (simp_all add: arch_curve_def flatness_def deviation_def splitCurveAtT_def midpoint_def
      js_eval Let_def)

lemma arch_binary64_flattened:
  "bezierToLines binary64 arch_curve 10
     = Some [Point 0 0, Point 1 (3 / 2), Point 1 (3 / 2), Point 2 0]"
  unfolding bezierToLines_def
  by (subst recurse.simps, simp add: arch_binary64, subst recurse.simps, simp add: arch_binary64,
      subst recurse.simps, simp add: arch_binary64)

text \<open>
  C6. The claim: for every cubic command with finite control points the recursion
  reaches the flat case. In binary64 the curve \<open>edge_curve\<close> has flatness 16, which
  is not below 10, and its first half is the curve itself, since \<open>2^53 + 1\<close> rounds
  to \<open>2^53\<close>: the flattening of the curve, and of a path with it, does not return.
\<close>

theorem cubic_flattening_does_not_return:
  "bezierToLines binary64 edge_curve 10 = None
   \<and> pathToLines binary64
         [MOVE (Point 9007199254740994 0),
          BEZIER_CURVE (Point 9007199254740992 0) (Point 9007199254740992 0)
            (Point 9007199254740992 0)] = None"
proof -
  have "recurse binary64 10 edge_curve = None"
  proof (cases "recurse binary64 10 edge_curve")
    case None
    then show ?thesis .
  next
    case (Some pts)
    from recurse_own_half [OF this] have False
      by (simp add: edge_curve_flatness edge_curve_split)
    then show ?thesis ..
  qed
  then have e: "bezierToLines binary64 edge_curve 10 = None"
    by (simp add: bezierToLines_def)
  then show ?thesis
    by (simp add: pathToLines_def edge_curve_def [symmetric])
qed

text \<open>
  What holds: in exact arithmetic the flattening with threshold 10 returns for every
  cubic curve. With any rounding, whenever it returns, a curve of flatness below 10
  has given its chord, the two end points, and any other curve has given the points of
  its first half followed by those of its second half, the halves of the split at one
  half, each flattened by the same procedure.
\<close>

lemma cubic_flattening_returns:
  "(\<exists>pts. bezierToLines exact curve 10 = Some pts)
   \<and> (bezierToLines rnd curve 10 = Some pts \<longrightarrow>
        (if flatness rnd curve < 10 then pts = [fst curve, snd (snd (snd curve))]
         else \<exists>left right.
                bezierToLines rnd (fst (splitCurveAtT rnd curve (1 / 2))) 10 = Some left
              \<and> bezierToLines rnd (snd (splitCurveAtT rnd curve (1 / 2))) 10 = Some right
              \<and> pts = left @ right))"
  unfolding bezierToLines_def using recurse_exact_returns recurse_result by blast

lemma cubic_flattening_returns_example:
  "bezierToLines binary64 arch_curve 10
     = Some [Point 0 0, Point 1 (3 / 2), Point 1 (3 / 2), Point 2 0]
   \<and> \<not> flatness binary64 arch_curve < 10
   \<and> (\<exists>left right.
          bezierToLines binary64 (Point 0 0, Point 0 1, Point (1 / 2) (3 / 2), Point 1 (3 / 2)) 10
            = Some left
        \<and> bezierToLines binary64 (Point 1 (3 / 2), Point (3 / 2) (3 / 2), Point 2 1, Point 2 0) 10
            = Some right
        \<and> [Point 0 0, Point 1 (3 / 2), Point 1 (3 / 2), Point 2 0] = left @ right)
   \<and> (\<exists>pts. bezierToLines exact edge_curve 10 = Some pts)"
  using arch_binary64_flattened
    cubic_flattening_returns [of arch_curve binary64
      "[Point 0 0, Point 1 (3 / 2), Point 1 (3 / 2), Point 2 0]"]
    cubic_flattening_returns [of edge_curve exact "[]"]
  by (simp add: arch_binary64)

end
